theory Spec2Isabelle
  imports Complex_Main "HOL-Library.Word"
begin

section \<open>The vmwareguest exporter: data model\<close>

text \<open>
  The exporter (\<^verbatim>\<open>main.go\<close>) reads counters of a VMware guest through the external
  library \<^verbatim>\<open>vmguestlib\<close> and publishes them through the external library
  \<^verbatim>\<open>prometheus\<close>. Both libraries are outside the repository: the first is a
  parameter of the model, the second is modelled by the plain data its constructors
  build.

  Go's \<^verbatim>\<open>error\<close> is a value with a message; a function returning
  \<^verbatim>\<open>(T, error)\<close> is modelled with result type \<open>error + T\<close>, \<open>Inl\<close> being
  \<^verbatim>\<open>err != nil\<close>. Every caller in \<^verbatim>\<open>main.go\<close> tests the error first and
  drops the value that comes with a non-nil error.
\<close>

datatype error = Error (message: string)

subsection \<open>float64\<close>

text \<open>
  The measurements are \<^verbatim>\<open>float64\<close>. The model does not fix IEEE arithmetic: it takes
  the carrier \<open>'f\<close> and the two operations the program uses as a parameter,
  \<open>f64_of\<close>, the float64 that Go gives for a number (the conversion
  \<^verbatim>\<open>float64(x)\<close> of an integer and the value of a numeric constant), and
  \<open>f64_mul\<close>, the product of two float64. Every theorem holds for any choice of them.
\<close>

record 'f float64_ops =
  f64_of :: "real \<Rightarrow> 'f"
  f64_mul :: "'f \<Rightarrow> 'f \<Rightarrow> 'f"

subsection \<open>The guest library\<close>

text \<open>
  A \<^verbatim>\<open>*vmguestlib.Session\<close> points to state \<open>'s\<close> owned by the library.
  \<^verbatim>\<open>RefreshInfo\<close> updates that state and reports an event flag or an error; the
  getters read it.
\<close>

record 's vmguestlib =
  NewSession :: "error + 's"
  RefreshInfo :: "'s \<Rightarrow> (error + bool) \<times> 's"
  GetHostMemUnmapped :: "'s \<Rightarrow> error + 64 word"
  GetHostMemMapped :: "'s \<Rightarrow> error + 64 word"
  GetHostMemKernOvhd :: "'s \<Rightarrow> error + 64 word"
  GetHostMemPhysFree :: "'s \<Rightarrow> error + 64 word"
  GetHostMemPhys :: "'s \<Rightarrow> error + 64 word"
  GetHostMemUsed :: "'s \<Rightarrow> error + 64 word"
  GetHostMemShared :: "'s \<Rightarrow> error + 64 word"
  GetHostMemSwapped :: "'s \<Rightarrow> error + 64 word"
  GetHostCPUUsed :: "'s \<Rightarrow> error + 64 word"
  GetCPUUsed :: "'s \<Rightarrow> error + 64 word"
  GetMemTargetSize :: "'s \<Rightarrow> error + 64 word"
  GetCPUStolen :: "'s \<Rightarrow> error + 64 word"
  GetTimeElapsed :: "'s \<Rightarrow> error + 64 word"
  GetHostNumCPUCores :: "'s \<Rightarrow> error + 32 word"
  GetMemUsed :: "'s \<Rightarrow> error + 32 word"
  GetMemSharedSaved :: "'s \<Rightarrow> error + 32 word"
  GetMemShared :: "'s \<Rightarrow> error + 32 word"
  GetMemSwapped :: "'s \<Rightarrow> error + 32 word"
  GetMemBallooned :: "'s \<Rightarrow> error + 32 word"
  GetMemOverhead :: "'s \<Rightarrow> error + 32 word"
  GetMemActive :: "'s \<Rightarrow> error + 32 word"
  GetMemMapped :: "'s \<Rightarrow> error + 32 word"
  GetMemShares :: "'s \<Rightarrow> error + 32 word"
  GetMemLimit :: "'s \<Rightarrow> error + 32 word"
  GetMemReservation :: "'s \<Rightarrow> error + 32 word"
  GetHostProcessorSpeed :: "'s \<Rightarrow> error + 32 word"
  GetCPUShares :: "'s \<Rightarrow> error + 32 word"
  GetCPULimit :: "'s \<Rightarrow> error + 32 word"
  GetCPUReservation :: "'s \<Rightarrow> error + 32 word"

subsection \<open>The metrics library\<close>

text \<open>
  \<^verbatim>\<open>prometheus.NewDesc\<close> and \<^verbatim>\<open>prometheus.MustNewConstMetric\<close> are modelled as
  the records of their arguments. The program passes no labels and no label values.
\<close>

datatype ValueType = CounterValue | GaugeValue | UntypedValue

record Desc =
  fqName :: string
  help_text :: string
  variableLabels :: "string list"
  constLabels :: "(string \<times> string) list"

definition NewDesc :: "string \<Rightarrow> string \<Rightarrow> string list \<Rightarrow> (string \<times> string) list \<Rightarrow> Desc" where
  "NewDesc fq h vl cl = \<lparr>fqName = fq, help_text = h, variableLabels = vl, constLabels = cl\<rparr>"

record 'f Metric =
  mdesc :: Desc
  valType :: ValueType
  val :: 'f

definition MustNewConstMetric :: "Desc \<Rightarrow> ValueType \<Rightarrow> 'f \<Rightarrow> 'f Metric" where
  "MustNewConstMetric d vt v = \<lparr>mdesc = d, valType = vt, val = v\<rparr>"

subsection \<open>Metric descriptors of the exporter\<close>

definition metric_name_pfx :: string where
  "metric_name_pfx = ''vmwareguest_''"

definition isGuestDesc :: Desc where
  "isGuestDesc = NewDesc ''vmwareguest_isguest''
     ''1 if running on a vmware guest with tools installed, 0 otherwise'' [] []"

definition collecterrsDesc :: Desc where
  "collecterrsDesc = NewDesc ''vmwareguest_collecterrors'' ''errors harvesting metrics'' [] []"

definition eventsDesc :: Desc where
  "eventsDesc = NewDesc ''vmwareguest_events'' ''events e.g. snapshot, vmotion, etc'' [] []"

text \<open>
  The struct \<^verbatim>\<open>metric\<close>. Its \<^verbatim>\<open>getter\<close> is a value of the interface
  \<^verbatim>\<open>getf64\<close>, that is a function from the session to a float64 or an error.
\<close>

record ('s, 'f) metric =
  getter :: "'s \<Rightarrow> error + 'f"
  name :: string
  desc :: string
  multiplier :: 'f
  unit :: string
  ValueType :: ValueType

definition metric_Get :: "'f float64_ops \<Rightarrow> ('s, 'f) metric \<Rightarrow> 's \<Rightarrow> error + 'f" where
  "metric_Get F m s =
     (case getter m s of
        Inl err \<Rightarrow> Inl err
      | Inr v \<Rightarrow> Inr (f64_mul F v (multiplier m)))"

definition getu32_Get :: "'f float64_ops \<Rightarrow> ('s \<Rightarrow> error + 32 word) \<Rightarrow> 's \<Rightarrow> error + 'f" where
  "getu32_Get F g s =
     (case g s of
        Inl err \<Rightarrow> Inl err
      | Inr u32 \<Rightarrow> Inr (f64_of F (real (unat u32))))"

definition getu64_Get :: "'f float64_ops \<Rightarrow> ('s \<Rightarrow> error + 64 word) \<Rightarrow> 's \<Rightarrow> error + 'f" where
  "getu64_Get F g s =
     (case g s of
        Inl err \<Rightarrow> Inl err
      | Inr u64 \<Rightarrow> Inr (f64_of F (real (unat u64))))"

definition mbmetric :: "'f float64_ops \<Rightarrow> ('s \<Rightarrow> error + 'f) \<Rightarrow> string \<Rightarrow> string \<Rightarrow> ('s, 'f) metric" where
  "mbmetric F g n d =
     \<lparr>getter = g, name = n, desc = d, multiplier = f64_of F (1024 * 1024),
      unit = ''bytes'', ValueType = GaugeValue\<rparr>"

definition mzmetric :: "'f float64_ops \<Rightarrow> ('s \<Rightarrow> error + 'f) \<Rightarrow> string \<Rightarrow> string \<Rightarrow> ('s, 'f) metric" where
  "mzmetric F g n d =
     \<lparr>getter = g, name = n, desc = d, multiplier = f64_of F (1024 * 1024),
      unit = ''hertz'', ValueType = GaugeValue\<rparr>"

definition unmetric :: "'f float64_ops \<Rightarrow> ('s \<Rightarrow> error + 'f) \<Rightarrow> string \<Rightarrow> string \<Rightarrow> ('s, 'f) metric" where
  "unmetric F g n d =
     \<lparr>getter = g, name = n, desc = d, multiplier = f64_of F 1,
      unit = '''', ValueType = GaugeValue\<rparr>"

definition msmetric :: "'f float64_ops \<Rightarrow> ('s \<Rightarrow> error + 'f) \<Rightarrow> string \<Rightarrow> string \<Rightarrow> ('s, 'f) metric" where
  "msmetric F g n d =
     \<lparr>getter = g, name = n, desc = d, multiplier = f64_of F 0.001,
      unit = ''seconds'', ValueType = CounterValue\<rparr>"

definition prometheus_name :: "('s, 'f) metric \<Rightarrow> string" where
  "prometheus_name gm =
     (let n = metric_name_pfx @ name gm
      in if unit gm \<noteq> '''' then n @ (''_'' @ unit gm) else n)"

subsection \<open>The metric table and its descriptors\<close>

text \<open>
  The table \<^verbatim>\<open>metrics\<close>, in the order of the source. A table entry
  \<^verbatim>\<open>getu64((*vmguestlib.Session).GetX)\<close> is the library's getter seen through
  the method \<^verbatim>\<open>Get\<close> of \<^verbatim>\<open>getu64\<close>.
\<close>

definition metrics :: "'s vmguestlib \<Rightarrow> 'f float64_ops \<Rightarrow> ('s, 'f) metric list" where
  "metrics L F =
     [
      mbmetric F (getu64_Get F (GetHostMemUnmapped L)) ''HostMemUnmapped''
        ''total amount of unmapped memory on the host'',
      mbmetric F (getu64_Get F (GetHostMemMapped L)) ''HostMemMapped''
        ''total amount of mapped memory on the host'',
      mbmetric F (getu64_Get F (GetHostMemKernOvhd L)) ''HostMemKernOvhd''
        ''total amount of host kernel memory overhead'',
      mbmetric F (getu64_Get F (GetHostMemPhysFree L)) ''HostMemPhysFree''
        ''total amount of physical memory free on host'',
      mbmetric F (getu64_Get F (GetHostMemPhys L)) ''HostMemPhys''
        ''total amount of memory available to the host OS kernel'',
      mbmetric F (getu64_Get F (GetHostMemUsed L)) ''HostMemUsed''
        ''total amount of consumed memory on the host'',
      mbmetric F (getu64_Get F (GetHostMemShared L)) ''HostMemShared''
        ''total amount of COW (Copy-On-Write) memory on the host'',
      mbmetric F (getu64_Get F (GetHostMemSwapped L)) ''HostMemSwapped''
        ''total amount of memory swapped out on the host'',
      msmetric F (getu64_Get F (GetHostCPUUsed L)) ''HostCPUUsed''
        ''total CPU time used by host.'',
      msmetric F (getu64_Get F (GetCPUUsed L)) ''CPUUsed''
        ''time during which the virtual machine has been using the CPU.'',
      mbmetric F (getu64_Get F (GetMemTargetSize L)) ''MemTargetSize''
        ''memory target Size'',
      msmetric F (getu64_Get F (GetCPUStolen L)) ''CPUStolen''
        ''time that the VM was runnable but not scheduled to run.'',
      msmetric F (getu64_Get F (GetTimeElapsed L)) ''TimeElapsed''
        ''real time passed since the virtual machine started running on the current host system.'',
      unmetric F (getu32_Get F (GetHostNumCPUCores L)) ''HostNumCPUCores''
        ''number of physical CPU cores on the host machine.'',
      mbmetric F (getu32_Get F (GetMemUsed L)) ''MemUsed''
        ''estimated amount of physical host memory currently consumed for this virtual machine's physical memory.'',
      mbmetric F (getu32_Get F (GetMemSharedSaved L)) ''MemSharedSaved''
        ''estimated amount of physical memory on the host saved from copy-on-write (COW) shared guest physical memory.'',
      mbmetric F (getu32_Get F (GetMemShared L)) ''MemShared''
        ''physical memory associated with this virtual machine that is copy-on-write (COW) shared on the host.'',
      mbmetric F (getu32_Get F (GetMemSwapped L)) ''MemSwapped''
        ''memory associated with this virtual machine that has been swapped by the host system.'',
      mbmetric F (getu32_Get F (GetMemBallooned L)) ''MemBallooned''
        ''memory that has been reclaimed from this virtual machine via the VMware Memory Balloon mechanism.'',
      mbmetric F (getu32_Get F (GetMemOverhead L)) ''MemOverhead''
        ''overhead memory associated with this virtual machine consumed on the host system.'',
      mbmetric F (getu32_Get F (GetMemActive L)) ''MemActive''
        ''estimated amount of memory the virtual machine is actively using.'',
      mbmetric F (getu32_Get F (GetMemMapped L)) ''MemMapped''
        ''mapped memory size of this virtual machine.'',
      unmetric F (getu32_Get F (GetMemShares L)) ''MemShares''
        ''number of memory shares allocated to the virtual machine.'',
      mbmetric F (getu32_Get F (GetMemLimit L)) ''MemLimit''
        ''maximum amount of memory that is available to the virtual machine.'',
      mbmetric F (getu32_Get F (GetMemReservation L)) ''MemReservation''
        ''minimum amount of memory that is available to the virtual machine.'',
      mzmetric F (getu32_Get F (GetHostProcessorSpeed L)) ''HostProcessorSpeed''
        ''host processor speed.'',
      unmetric F (getu32_Get F (GetCPUShares L)) ''CPUShares''
        ''number of CPU shares allocated to the virtual machine.'',
      mzmetric F (getu32_Get F (GetCPULimit L)) ''CPULimit''
        ''maximum processing power available to the virtual machine.'',
      mzmetric F (getu32_Get F (GetCPUReservation L)) ''CPUReservation''
        ''minimum processing power available to the virtual machine.''
     ]"

text \<open>
  \<^verbatim>\<open>init\<close> appends one descriptor per table entry to the global \<^verbatim>\<open>descs\<close>,
  which starts empty.
\<close>

fun init_range :: "('s, 'f) metric list \<Rightarrow> Desc list \<Rightarrow> Desc list" where
  "init_range [] ds = ds"
| "init_range (m # ms) ds = init_range ms (ds @ [NewDesc (prometheus_name m) (desc m) [] []])"

definition descs :: "'s vmguestlib \<Rightarrow> 'f float64_ops \<Rightarrow> Desc list" where
  "descs L F = init_range (metrics L F) []"

section \<open>The collector\<close>

text \<open>
  \<^verbatim>\<open>errors\<close> and \<^verbatim>\<open>events\<close> are Go \<^verbatim>\<open>int\<close>: 64 bits on the platform the
  Dockerfile builds for, read as two's complement by \<open>sint\<close>; \<^verbatim>\<open>++\<close> wraps around.
  A nil \<^verbatim>\<open>session\<close> is \<open>None\<close>; a session that is there carries the library's state
  for it.
\<close>

record 's Collector =
  session :: "'s option"
  errors :: "64 word"
  events :: "64 word"

definition NewCollector :: "'s vmguestlib \<Rightarrow> 's Collector \<times> error option" where
  "NewCollector L =
     (case NewSession L of
        Inl err \<Rightarrow> (\<lparr>session = None, errors = 0, events = 0\<rparr>, Some err)
      | Inr s \<Rightarrow> (\<lparr>session = Some s, errors = 0, events = 0\<rparr>, None))"

text \<open>
  What one call of \<^verbatim>\<open>Collect\<close> does: the metrics sent on the channel, in order, the
  lines given to \<^verbatim>\<open>log.Printf\<close>, the collector afterwards, and how the call ended:
  it returned, the process exited with a code, or the Go runtime panicked.
\<close>

datatype status = Returned | Exited int | Panicked

record ('s, 'f) scrape =
  sent :: "'f Metric list"
  logged :: "string list"
  collector :: "'s Collector"
  status :: status

text \<open>
  The loop \<^verbatim>\<open>for i, m := range metrics\<close> of \<^verbatim>\<open>Collect\<close>, from index \<open>i\<close> on;
  it carries \<^verbatim>\<open>c.errors\<close> and the metrics sent so far. Reading \<^verbatim>\<open>descs[i]\<close>
  beyond the end of \<^verbatim>\<open>descs\<close> panics.
\<close>

fun Collect_range ::
  "'f float64_ops \<Rightarrow> Desc list \<Rightarrow> 's \<Rightarrow> nat \<Rightarrow> ('s, 'f) metric list
     \<Rightarrow> 64 word \<times> 'f Metric list \<Rightarrow> status \<times> 64 word \<times> 'f Metric list" where
  "Collect_range F ds s i [] (errs, ch) = (Returned, errs, ch)"
| "Collect_range F ds s i (m # ms) (errs, ch) =
     (case metric_Get F m s of
        Inl err \<Rightarrow> Collect_range F ds s (Suc i) ms (errs + 1, ch)
      | Inr v \<Rightarrow>
          if i < length ds
          then Collect_range F ds s (Suc i) ms
                 (errs, ch @ [MustNewConstMetric (ds ! i) (ValueType m) v])
          else (Panicked, errs, ch))"

definition Collect :: "'s vmguestlib \<Rightarrow> 'f float64_ops \<Rightarrow> 's Collector \<Rightarrow> ('s, 'f) scrape" where
  "Collect L F c =
     (let isguest = (if session c \<noteq> None then 1 else 0 :: int);
          ch = [MustNewConstMetric isGuestDesc GaugeValue (f64_of F (real_of_int isguest))]
      in case session c of
           None \<Rightarrow> \<lparr>sent = ch, logged = [], collector = c, status = Returned\<rparr>
         | Some s \<Rightarrow>
             (case RefreshInfo L s of
                (Inl err, s') \<Rightarrow>
                  \<lparr>sent = ch, logged = [''An error occured: '' @ message err],
                   collector = c\<lparr>session := Some s'\<rparr>, status = Exited 1\<rparr>
              | (Inr event, s') \<Rightarrow>
                  (let c1 = c\<lparr>session := Some s',
                                events := (if event then events c + 1 else events c)\<rparr>
                   in case Collect_range F (descs L F) s' 0 (metrics L F) (errors c1, ch) of
                        (st, errs, ch') \<Rightarrow>
                          (let c2 = c1\<lparr>errors := errs\<rparr>
                           in if st = Returned
                              then \<lparr>sent = ch' @
                                      [MustNewConstMetric eventsDesc CounterValue
                                         (f64_of F (real_of_int (sint (events c2)))),
                                       MustNewConstMetric collecterrsDesc CounterValue
                                         (f64_of F (real_of_int (sint (errors c2))))],
                                    logged = [], collector = c2, status = Returned\<rparr>
                              else \<lparr>sent = ch', logged = [], collector = c2, status = st\<rparr>))))"

text \<open>
  \<^verbatim>\<open>Describe\<close> sends descriptors and assigns to nothing; the model returns the
  descriptors sent together with the collector afterwards.
\<close>

definition Describe ::
  "'s vmguestlib \<Rightarrow> 'f float64_ops \<Rightarrow> 's Collector \<Rightarrow> Desc list \<times> 's Collector" where
  "Describe L F c =
     (let ch = [isGuestDesc]
      in if session c = None then (ch, c)
         else (ch @ descs L F @ [eventsDesc, collecterrsDesc], c))"

section \<open>Auxiliary notions\<close>

text \<open>
  The table samples one pass of the loop sends for the pairs of a descriptor and its
  table entry: the converted value where the getter succeeds, nothing where it fails.
\<close>

definition table_sample :: "'f float64_ops \<Rightarrow> 's \<Rightarrow> Desc \<times> ('s, 'f) metric \<Rightarrow> 'f Metric list" where
  "table_sample F s dm =
     (case metric_Get F (snd dm) s of
        Inl err \<Rightarrow> []
      | Inr v \<Rightarrow> [MustNewConstMetric (fst dm) (ValueType (snd dm)) v])"

definition table_samples :: "'s vmguestlib \<Rightarrow> 'f float64_ops \<Rightarrow> 's \<Rightarrow> 'f Metric list" where
  "table_samples L F s = concat (map (table_sample F s) (zip (descs L F) (metrics L F)))"

text \<open>The table indices whose getter fails in session state \<open>s\<close>, in table order.\<close>

definition failing :: "'s vmguestlib \<Rightarrow> 'f float64_ops \<Rightarrow> 's \<Rightarrow> nat list" where
  "failing L F s =
     filter (\<lambda>i. isl (metric_Get F (metrics L F ! i) s)) [0..<length (metrics L F)]"

text \<open>The largest Go \<^verbatim>\<open>int\<close>.\<close>

definition MaxInt :: int where
  "MaxInt = 2 ^ 63 - 1"

text \<open>
  No increment of one call of \<^verbatim>\<open>Collect\<close> on \<open>c\<close> passes \<open>MaxInt\<close>: the call
  increments \<^verbatim>\<open>c.errors\<close> once per failing getter and \<^verbatim>\<open>c.events\<close> once when
  the refresh reports an event, and only after a refresh that succeeded.
\<close>

definition no_wrap :: "'s vmguestlib \<Rightarrow> 'f float64_ops \<Rightarrow> 's Collector \<Rightarrow> bool" where
  "no_wrap L F c =
     (case session c of
        None \<Rightarrow> True
      | Some s \<Rightarrow>
          (case RefreshInfo L s of
             (Inl err, s') \<Rightarrow> True
           | (Inr ev, s') \<Rightarrow>
               sint (errors c) + int (length (failing L F s')) \<le> MaxInt
               \<and> (ev \<longrightarrow> sint (events c) < MaxInt)))"

subsection \<open>A concrete library and exact arithmetic, for evaluation\<close>

text \<open>
  A guest whose state says what the next refresh reports, which getters fail (by the
  base name of their table entry) and the raw number every other getter returns. A
  refresh adds one to the raw number.
\<close>

record guest =
  refresh :: "error + bool"
  broken :: "string list"
  raw :: nat

definition guest_u64 :: "string \<Rightarrow> guest \<Rightarrow> error + 64 word" where
  "guest_u64 n s = (if n \<in> set (broken s) then Inl (Error n) else Inr (word_of_nat (raw s)))"

definition guest_u32 :: "string \<Rightarrow> guest \<Rightarrow> error + 32 word" where
  "guest_u32 n s = (if n \<in> set (broken s) then Inl (Error n) else Inr (word_of_nat (raw s)))"

definition guest_lib :: "guest vmguestlib" where
  "guest_lib =
     \<lparr>NewSession = Inr \<lparr>refresh = Inr False, broken = [], raw = 0\<rparr>,
      RefreshInfo = (\<lambda>s. (refresh s, s\<lparr>raw := raw s + 1\<rparr>)),
      GetHostMemUnmapped = guest_u64 ''HostMemUnmapped'',
      GetHostMemMapped = guest_u64 ''HostMemMapped'',
      GetHostMemKernOvhd = guest_u64 ''HostMemKernOvhd'',
      GetHostMemPhysFree = guest_u64 ''HostMemPhysFree'',
      GetHostMemPhys = guest_u64 ''HostMemPhys'',
      GetHostMemUsed = guest_u64 ''HostMemUsed'',
      GetHostMemShared = guest_u64 ''HostMemShared'',
      GetHostMemSwapped = guest_u64 ''HostMemSwapped'',
      GetHostCPUUsed = guest_u64 ''HostCPUUsed'',
      GetCPUUsed = guest_u64 ''CPUUsed'',
      GetMemTargetSize = guest_u64 ''MemTargetSize'',
      GetCPUStolen = guest_u64 ''CPUStolen'',
      GetTimeElapsed = guest_u64 ''TimeElapsed'',
      GetHostNumCPUCores = guest_u32 ''HostNumCPUCores'',
      GetMemUsed = guest_u32 ''MemUsed'',
      GetMemSharedSaved = guest_u32 ''MemSharedSaved'',
      GetMemShared = guest_u32 ''MemShared'',
      GetMemSwapped = guest_u32 ''MemSwapped'',
      GetMemBallooned = guest_u32 ''MemBallooned'',
      GetMemOverhead = guest_u32 ''MemOverhead'',
      GetMemActive = guest_u32 ''MemActive'',
      GetMemMapped = guest_u32 ''MemMapped'',
      GetMemShares = guest_u32 ''MemShares'',
      GetMemLimit = guest_u32 ''MemLimit'',
      GetMemReservation = guest_u32 ''MemReservation'',
      GetHostProcessorSpeed = guest_u32 ''HostProcessorSpeed'',
      GetCPUShares = guest_u32 ''CPUShares'',
      GetCPULimit = guest_u32 ''CPULimit'',
      GetCPUReservation = guest_u32 ''CPUReservation''\<rparr>"

text \<open>float64 idealised as the reals: no rounding.\<close>

definition exact :: "real float64_ops" where
  "exact = \<lparr>f64_of = (\<lambda>x. x), f64_mul = (\<lambda>a b. a * b)\<rparr>"

text \<open>Three states of that guest: all is well, one getter fails, the refresh fails.\<close>

definition healthy :: guest where
  "healthy = \<lparr>refresh = Inr False, broken = [], raw = 2047\<rparr>"

definition one_broken :: guest where
  "one_broken = \<lparr>refresh = Inr True, broken = [''HostMemUsed''], raw = 2047\<rparr>"

definition unreachable :: guest where
  "unreachable = \<lparr>refresh = Inl (Error ''no guest info''), broken = [], raw = 2047\<rparr>"

lemmas table_defs =
  metrics_def mbmetric_def mzmetric_def unmetric_def msmetric_def
  getu32_Get_def getu64_Get_def

lemmas guest_defs =
  guest_lib_def guest_u32_def guest_u64_def healthy_def one_broken_def unreachable_def
  exact_def

section \<open>Properties of the table and of the loop\<close>

lemma init_range_eq:
  "init_range ms ds = ds @ map (\<lambda>m. NewDesc (prometheus_name m) (desc m) [] []) ms"
  by (induction ms arbitrary: ds) auto

lemma length_metrics: "length (metrics L F) = 29"
  by (simp add: metrics_def)

lemma descs_eq:
  "descs L F = map (\<lambda>m. NewDesc (prometheus_name m) (desc m) [] []) (metrics L F)"
  by (simp add: descs_def init_range_eq)

lemma length_descs: "length (descs L F) = length (metrics L F)"
  by (simp add: descs_eq)

lemma isl_metric_Get: "isl (metric_Get F m s) = isl (getter m s)"
  by (simp add: metric_Get_def split: sum.splits)

text \<open>The loop never panics when \<^verbatim>\<open>descs\<close> is as long as the rest of the table needs.\<close>

lemma Collect_range_eq:
  "i + length ms \<le> length ds \<Longrightarrow>
   Collect_range F ds s i ms (errs, ch) =
     (Returned, errs + word_of_nat (length (filter (\<lambda>m. isl (metric_Get F m s)) ms)),
      ch @ concat (map (table_sample F s) (zip (drop i ds) ms)))"
proof (induction ms arbitrary: i errs ch)
  case Nil
  then show ?case by simp
next
  case (Cons m ms)
  from Cons.prems have i: "i < length ds" and le: "Suc i + length ms \<le> length ds"
    by simp_all
  have d: "drop i ds = ds ! i # drop (Suc i) ds"
    using i by (simp add: Cons_nth_drop_Suc)
  show ?case
    by (cases "metric_Get F m s") (simp_all add: Cons.IH [OF le] d i table_sample_def)
qed

lemma filter_nth_upt:
  "filter P xs = map ((!) xs) (filter (\<lambda>i. P (xs ! i)) [0..<length xs])"
proof -
  have "filter P (map ((!) xs) [0..<length xs])
          = map ((!) xs) (filter (P \<circ> (!) xs) [0..<length xs])"
    by (rule filter_map)
  then show ?thesis by (simp add: map_nth comp_def)
qed

lemma failures_failing:
  "length (filter (\<lambda>m. isl (metric_Get F m s)) (metrics L F)) = length (failing L F s)"
  unfolding failing_def by (subst filter_nth_upt) simp

lemma length_failing: "length (failing L F s) \<le> 29"
proof -
  have "length (failing L F s) \<le> length [0..<length (metrics L F)]"
    unfolding failing_def by (rule length_filter_le)
  then show ?thesis by (simp add: length_metrics)
qed

text \<open>A scrape with a session whose refresh succeeds, in closed form.\<close>

lemma Collect_refreshed:
  assumes "session c = Some s" and "RefreshInfo L s = (Inr ev, s')"
  shows "Collect L F c =
     \<lparr>sent = MustNewConstMetric isGuestDesc GaugeValue (f64_of F 1) # table_samples L F s' @
        [MustNewConstMetric eventsDesc CounterValue
           (f64_of F (real_of_int (sint (events c + (if ev then 1 else 0))))),
         MustNewConstMetric collecterrsDesc CounterValue
           (f64_of F (real_of_int (sint (errors c + word_of_nat (length (failing L F s'))))))],
      logged = [],
      collector = \<lparr>session = Some s', errors = errors c + word_of_nat (length (failing L F s')),
                   events = events c + (if ev then 1 else 0)\<rparr>,
      status = Returned\<rparr>"
proof -
  have "0 + length (metrics L F) \<le> length (descs L F)"
    by (simp add: length_descs)
  note r = Collect_range_eq [OF this]
  show ?thesis
    using assms by (simp add: Collect_def r failures_failing table_samples_def)
qed

lemma Collect_refresh_failed:
  assumes "session c = Some s" and "RefreshInfo L s = (Inl err, s')"
  shows "Collect L F c =
     \<lparr>sent = [MustNewConstMetric isGuestDesc GaugeValue (f64_of F 1)],
      logged = [''An error occured: '' @ message err],
      collector = c\<lparr>session := Some s'\<rparr>, status = Exited 1\<rparr>"
  using assms by (simp add: Collect_def)

lemma Collect_absent:
  assumes "session c = None"
  shows "Collect L F c =
     \<lparr>sent = [MustNewConstMetric isGuestDesc GaugeValue (f64_of F 0)],
      logged = [], collector = c, status = Returned\<rparr>"
  using assms by (simp add: Collect_def)

text \<open>\<^verbatim>\<open>Describe\<close> and the descriptors: the exposed names are pairwise different.\<close>

lemma Describe_eq:
  "Describe L F c =
     (if session c = None then [isGuestDesc]
      else isGuestDesc # descs L F @ [eventsDesc, collecterrsDesc], c)"
  by (simp add: Describe_def Let_def)

lemma fqName_descs:
  "map fqName (descs L F) =
     map (\<lambda>m. ''vmwareguest_'' @ name m @ (if unit m = [] then [] else ''_'' @ unit m))
       (metrics L F)"
  by (simp add: descs_eq NewDesc_def prometheus_name_def metric_name_pfx_def comp_def)

lemma distinct_descs: "distinct (descs L F)"
proof -
  have "distinct (map fqName (descs L F))"
    unfolding fqName_descs by (simp add: table_defs)
  then show ?thesis by (simp add: distinct_map)
qed

lemma fixed_not_in_descs:
  "isGuestDesc \<notin> set (descs L F)" "eventsDesc \<notin> set (descs L F)"
  "collecterrsDesc \<notin> set (descs L F)"
proof -
  have "fqName isGuestDesc \<notin> set (map fqName (descs L F))"
    unfolding fqName_descs by (simp add: table_defs isGuestDesc_def NewDesc_def)
  then show "isGuestDesc \<notin> set (descs L F)" by auto
  have "fqName eventsDesc \<notin> set (map fqName (descs L F))"
    unfolding fqName_descs by (simp add: table_defs eventsDesc_def NewDesc_def)
  then show "eventsDesc \<notin> set (descs L F)" by auto
  have "fqName collecterrsDesc \<notin> set (map fqName (descs L F))"
    unfolding fqName_descs by (simp add: table_defs collecterrsDesc_def NewDesc_def)
  then show "collecterrsDesc \<notin> set (descs L F)" by auto
qed

lemma fixed_distinct:
  "isGuestDesc \<noteq> eventsDesc" "isGuestDesc \<noteq> collecterrsDesc" "eventsDesc \<noteq> collecterrsDesc"
  by (simp_all add: isGuestDesc_def eventsDesc_def collecterrsDesc_def NewDesc_def)

subsection \<open>Which table samples a scrape sends\<close>

lemma refresh_healthy: "RefreshInfo guest_lib healthy = (Inr False, healthy\<lparr>raw := 2048\<rparr>)"
  by (simp add: guest_defs)

lemma set_failing:
  "set (failing L F s) = {i. i < length (metrics L F) \<and> isl (getter (metrics L F ! i) s)}"
  by (auto simp: failing_def isl_metric_Get)

lemma mdesc_table_sample:
  "map mdesc (concat (map (table_sample F s) zs))
     = map fst (filter (\<lambda>dm. \<not> isl (getter (snd dm) s)) zs)"
  by (induction zs) (auto simp: table_sample_def MustNewConstMetric_def metric_Get_def split: sum.splits)

lemma length_table_sample_filter:
  "length (concat (map (table_sample F s) zs))
     + length (filter (\<lambda>m. isl (metric_Get F m s)) (map snd zs)) = length zs"
  by (induction zs) (auto simp: table_sample_def split: sum.splits)

lemma length_table_samples:
  "length (table_samples L F s) + length (failing L F s) = length (metrics L F)"
  using length_table_sample_filter [of F s "zip (descs L F) (metrics L F)"]
  by (simp add: table_samples_def length_descs failures_failing)

lemma zip_nth_upt:
  assumes "length xs = length ys"
  shows "zip xs ys = map (\<lambda>i. (xs ! i, ys ! i)) [0..<length ys]"
proof (rule nth_equalityI)
  show "length (zip xs ys) = length (map (\<lambda>i. (xs ! i, ys ! i)) [0..<length ys])"
    using assms by simp
next
  fix i assume "i < length (zip xs ys)"
  then show "zip xs ys ! i = map (\<lambda>i. (xs ! i, ys ! i)) [0..<length ys] ! i"
    using assms by simp
qed

lemma mdesc_table_samples:
  "map mdesc (table_samples L F s)
     = map ((!) (descs L F))
         (filter (\<lambda>i. \<not> isl (getter (metrics L F ! i) s)) [0..<length (metrics L F)])"
proof -
  let ?ds = "descs L F" and ?ms = "metrics L F"
  let ?pair = "\<lambda>i. (?ds ! i, ?ms ! i)"
  have z: "zip ?ds ?ms = map ?pair [0..<length ?ms]"
    by (rule zip_nth_upt) (simp add: length_descs)
  have "map mdesc (table_samples L F s)
          = map fst (filter (\<lambda>dm. \<not> isl (getter (snd dm) s)) (map ?pair [0..<length ?ms]))"
    unfolding table_samples_def mdesc_table_sample z ..
  also have "\<dots> = map fst (map ?pair
                (filter ((\<lambda>dm. \<not> isl (getter (snd dm) s)) \<circ> ?pair) [0..<length ?ms]))"
    by (simp only: filter_map)
  also have "\<dots> = map ((!) ?ds) (filter (\<lambda>i. \<not> isl (getter (?ms ! i) s)) [0..<length ?ms])"
    by (simp add: comp_def)
  finally show ?thesis .
qed

lemma upt_split: "k < n \<Longrightarrow> [0..<n] = [0..<k] @ k # [Suc k..<n]"
proof -
  assume k: "k < n"
  then have "[0..<n] = [0..<k] @ [k..<n]"
    by (metis le_add_diff_inverse less_imp_le_nat upt_add_eq_append zero_le)
  then show ?thesis using k by (simp add: upt_conv_Cons)
qed

lemma filter_only:
  assumes "k < n" and "P k" and "\<forall>j<n. j \<noteq> k \<longrightarrow> \<not> P j"
  shows "filter P [0..<n] = [k]"
  using assms by (simp add: upt_split [OF assms(1)])

lemma filter_all_but:
  assumes "k < n" and "P k" and "\<forall>j<n. j \<noteq> k \<longrightarrow> \<not> P j"
  shows "filter (\<lambda>i. \<not> P i) [0..<n] = [0..<k] @ [Suc k..<n]"
  using assms by (simp add: upt_split [OF assms(1)])

lemma map_nth_all_but:
  assumes "k < length ds" and "n = length ds"
  shows "map ((!) ds) ([0..<k] @ [Suc k..<n]) = take k ds @ drop (Suc k) ds"
proof -
  have "map ((!) ds) [0..<k] = take k ds"
    using assms by (intro map_upt_eqI) simp_all
  moreover have "map ((!) ds) [Suc k..<n] = drop (Suc k) ds"
    using assms by (intro map_upt_eqI) simp_all
  ultimately show ?thesis by simp
qed

lemma failing_by_flags:
  assumes "map (\<lambda>m. isl (getter m s)) (metrics L F) = bs"
  shows "failing L F s = filter (\<lambda>i. bs ! i) [0..<length bs]"
proof -
  have len: "length bs = length (metrics L F)"
    using assms by auto
  have "filter (\<lambda>i. isl (metric_Get F (metrics L F ! i) s)) [0..<length (metrics L F)]
          = filter (\<lambda>i. bs ! i) [0..<length (metrics L F)]"
  proof (rule filter_cong [OF refl])
    fix i assume "i \<in> set [0..<length (metrics L F)]"
    then have "i < length (metrics L F)" by simp
    then have "bs ! i = isl (getter (metrics L F ! i) s)"
      using assms by auto
    then show "isl (metric_Get F (metrics L F ! i) s) = bs ! i"
      by (simp add: isl_metric_Get)
  qed
  then show ?thesis by (simp add: failing_def len)
qed

lemma flags_one_broken:
  "map (\<lambda>m. isl (getter m (one_broken\<lparr>raw := 2048\<rparr>))) (metrics guest_lib exact)
     = [False, False, False, False, False, True, False, False, False, False,
        False, False, False, False, False, False, False, False, False, False,
        False, False, False, False, False, False, False, False, False]"
  by (simp add: table_defs guest_defs)

lemma failing_one_broken: "failing guest_lib exact (one_broken\<lparr>raw := 2048\<rparr>) = [5]"
  unfolding failing_by_flags [OF flags_one_broken] by code_simp


lemma refresh_one_broken: "RefreshInfo guest_lib one_broken = (Inr True, one_broken\<lparr>raw := 2048\<rparr>)"
  by (simp add: guest_defs)

section \<open>The claims\<close>

text \<open>
  C1: a scrape on a collector without a session sends exactly one sample, the
  guest-presence gauge \<^verbatim>\<open>vmwareguest_isguest\<close> with value 0; no table sample and no
  events or errors sample is sent, nothing is logged, the call returns and the collector
  is the same as before (its counters included).
\<close>

theorem Collect_without_session:
  assumes "session c = None"
  shows "sent (Collect L F c) = [MustNewConstMetric isGuestDesc GaugeValue (f64_of F 0)]
       \<and> length (sent (Collect L F c)) = 1
       \<and> collector (Collect L F c) = c
       \<and> status (Collect L F c) = Returned"
  using assms by (simp add: Collect_absent)

theorem Collect_without_session_witness:
  "session \<lparr>session = None :: guest option, errors = 3, events = 4\<rparr> = None
   \<and> sent (Collect guest_lib exact \<lparr>session = None, errors = 3, events = 4\<rparr>)
       = [\<lparr>mdesc = isGuestDesc, valType = GaugeValue, val = 0\<rparr>]
   \<and> collector (Collect guest_lib exact \<lparr>session = None, errors = 3, events = 4\<rparr>)
       = \<lparr>session = None, errors = 3, events = 4\<rparr>"
  using Collect_without_session
          [of "\<lparr>session = None :: guest option, errors = 3, events = 4\<rparr>" guest_lib exact]
  by (simp add: MustNewConstMetric_def exact_def)

end
